theory Spec2Isabelle
  imports Main
begin

section \<open>The record store of \<^verbatim>\<open>app.py\<close>\<close>

text \<open>
  The application keeps four JSON files, each a list of dictionaries. A dictionary is
  modelled as a record with the keys that the code writes; since three kinds of
  dictionary share the keys \<^verbatim>\<open>platformNumber\<close>, \<^verbatim>\<open>ticketId\<close> and \<^verbatim>\<open>bookingId\<close>,
  every field carries the initial of its record kind (\<open>p_\<close>, \<open>b_\<close>, \<open>t_\<close>, \<open>pay_\<close>).

  A \<^verbatim>\<open>datetime\<close> is the number of microseconds since \<^verbatim>\<open>datetime.min\<close>
  (0001-01-01T00:00:00), an \<open>int\<close>. The time fields of the files hold what
  \<^verbatim>\<open>isoformat()\<close> wrote: \<open>Iso d\<close> stands for a string that
  \<^verbatim>\<open>datetime.fromisoformat\<close> reads back as the naive datetime \<open>d\<close>, and
  \<open>NotIso v\<close> for any other stored value \<open>v\<close>, on which \<^verbatim>\<open>fromisoformat\<close> raises.
  Each call of \<^verbatim>\<open>datetime.now()\<close> is a parameter of the function that makes it.
\<close>

datatype error = OverflowError | ValueError

datatype isotime = Iso int | NotIso string

record platform =
  p_platformNumber :: int
  p_capacity :: int

record booking =
  b_bookingId :: int
  b_userId :: int
  b_platformNumber :: int
  b_bookingTime :: isotime
  b_selectedDuration :: int
  b_ticketId :: int

record ticket =
  t_ticketId :: int
  t_issueTime :: isotime
  t_expiryTime :: isotime
  t_status :: string
  t_platformNumber :: int

record payment =
  pay_paymentId :: int
  pay_bookingId :: int
  pay_amount :: int
  pay_paymentStatus :: string
  pay_paymentTime :: isotime

text \<open>
  \<^verbatim>\<open>load_json(F)\<close> reads a field of the store and \<^verbatim>\<open>save_json(F, data)\<close>
  replaces it.
\<close>

record store =
  PLATFORMS_FILE :: "platform list"
  BOOKINGS_FILE :: "booking list"
  PAYMENTS_FILE :: "payment list"
  TICKETS_FILE :: "ticket list"

subsection \<open>Library functions used by the code\<close>

text \<open>Python's \<^verbatim>\<open>str\<close> on an integer, used by the f-string of the availability check.\<close>

fun digits :: "nat \<Rightarrow> string" where
  "digits n =
     (if n < 10 then [''0123456789'' ! n]
      else digits (n div 10) @ [''0123456789'' ! (n mod 10)])"

declare digits.simps [simp del]

definition str :: "int \<Rightarrow> string" where
  "str i = (if i < 0 then CHR ''-'' # digits (nat (- i)) else digits (nat i))"

text \<open>
  \<^verbatim>\<open>datetime.max\<close> is 9999-12-31T23:59:59.999999, day 3652059 of the proleptic
  Gregorian calendar. \<^verbatim>\<open>timedelta(hours=h)\<close> raises \<^verbatim>\<open>OverflowError\<close> when the
  normalised number of days exceeds 999999999 in magnitude, and adding a timedelta to a
  datetime raises it when the sum leaves the range of \<^verbatim>\<open>datetime\<close>.
\<close>

definition datetime_max :: int where
  "datetime_max = 3652059 * 86400 * 1000000 - 1"

definition timedelta_hours :: "int \<Rightarrow> error + int" where
  "timedelta_hours hours =
     (if - 999999999 \<le> hours div 24 \<and> hours div 24 \<le> 999999999
      then Inr (hours * 3600000000) else Inl OverflowError)"

definition datetime_add :: "int \<Rightarrow> int \<Rightarrow> error + int" where
  "datetime_add d delta =
     (if 0 \<le> d + delta \<and> d + delta \<le> datetime_max
      then Inr (d + delta) else Inl OverflowError)"

definition fromisoformat :: "isotime \<Rightarrow> error + int" where
  "fromisoformat v = (case v of Iso d \<Rightarrow> Inr d | NotIso _ \<Rightarrow> Inl ValueError)"

subsection \<open>JSON storage helper layer\<close>

text \<open>\<^verbatim>\<open>get_next_id(data, key_name)\<close>; the key is passed as the field's selector.\<close>

definition get_next_id :: "'a list \<Rightarrow> ('a \<Rightarrow> int) \<Rightarrow> int" where
  "get_next_id data key_name =
     (if data = [] then 1 else Max (set (map key_name data)) + 1)"

subsection \<open>Booking service\<close>

text \<open>
  The counting loop of \<^verbatim>\<open>check_platform_availability\<close>. The test
  \<^verbatim>\<open>if ticket_id:\<close> is Python truthiness: an integer passes unless it is 0.
  \<^verbatim>\<open>next((t for t in tickets if ...), None)\<close> is \<open>find\<close>.
\<close>

fun count_active :: "ticket list \<Rightarrow> int \<Rightarrow> booking list \<Rightarrow> int \<Rightarrow> int" where
  "count_active tickets platform_number [] active_count = active_count"
| "count_active tickets platform_number (b # bookings) active_count =
     count_active tickets platform_number bookings
       (if b_platformNumber b = platform_number then
          (let ticket_id = b_ticketId b in
           if ticket_id \<noteq> 0 then
             (case find (\<lambda>t. t_ticketId t = ticket_id) tickets of
                Some t \<Rightarrow> if t_status t = ''Active'' then active_count + 1 else active_count
              | None \<Rightarrow> active_count)
           else active_count)
        else active_count)"

definition check_platform_availability :: "store \<Rightarrow> int \<Rightarrow> bool \<times> string" where
  "check_platform_availability s platform_number =
     (let platforms = PLATFORMS_FILE s;
          bookings = BOOKINGS_FILE s;
          tickets = TICKETS_FILE s
      in case find (\<lambda>p. p_platformNumber p = platform_number) platforms of
           None \<Rightarrow> (False, ''Platform not found.'')
         | Some platform \<Rightarrow>
             (let capacity = p_capacity platform;
                  active_count = count_active tickets platform_number bookings 0
              in if active_count \<ge> capacity
                 then (False, ''Platform '' @ str platform_number @ '' is full.'')
                 else (True, ''Available'')))"

definition calculate_amount :: "int \<Rightarrow> int" where
  "calculate_amount duration_hours =
     (let rate_per_hour = 10 in rate_per_hour * duration_hours)"

text \<open>
  \<^verbatim>\<open>create_booking\<close> reads the clock three times: for \<^verbatim>\<open>booking_time\<close>, for
  \<^verbatim>\<open>issue_time\<close> and for the datetime to which the duration is added. The three
  readings are the parameters \<open>now_booking\<close>, \<open>now_issue\<close> and \<open>now_expiry\<close>. The
  addition is the only step that can raise, and it comes before the first
  \<^verbatim>\<open>save_json\<close>.
\<close>

definition create_booking ::
  "int \<Rightarrow> int \<Rightarrow> int \<Rightarrow> store \<Rightarrow> int \<Rightarrow> int \<Rightarrow> int \<Rightarrow> error + (booking \<times> store)" where
  "create_booking now_booking now_issue now_expiry s user_id platform_number selected_duration =
     (let bookings = BOOKINGS_FILE s;
          tickets = TICKETS_FILE s;
          booking_id = get_next_id bookings b_bookingId;
          ticket_id = get_next_id tickets t_ticketId;
          booking_time = Iso now_booking;
          issue_time = Iso now_issue
      in case timedelta_hours selected_duration of
           Inl e \<Rightarrow> Inl e
         | Inr delta \<Rightarrow>
        (case datetime_add now_expiry delta of
           Inl e \<Rightarrow> Inl e
         | Inr expiry \<Rightarrow>
             (let expiry_time = Iso expiry;
                  ticket = \<lparr>t_ticketId = ticket_id, t_issueTime = issue_time,
                            t_expiryTime = expiry_time, t_status = ''Pending Payment'',
                            t_platformNumber = platform_number\<rparr>;
                  s1 = s\<lparr>TICKETS_FILE := tickets @ [ticket]\<rparr>;
                  booking = \<lparr>b_bookingId = booking_id, b_userId = user_id,
                             b_platformNumber = platform_number, b_bookingTime = booking_time,
                             b_selectedDuration = selected_duration, b_ticketId = ticket_id\<rparr>;
                  s2 = s1\<lparr>BOOKINGS_FILE := bookings @ [booking]\<rparr>
              in Inr (booking, s2))))"

subsection \<open>Ticket state machine\<close>

text \<open>
  \<^verbatim>\<open>update_ticket_state(ticket)\<close> mutates the dictionary it is given; the model returns
  it. The argument may be \<^verbatim>\<open>None\<close>. The \<^verbatim>\<open>try\<close> block is the \<open>case\<close> on the
  result of \<open>fromisoformat\<close>, and \<^verbatim>\<open>except Exception: pass\<close> is its \<open>Inl\<close> branch.
\<close>

fun update_ticket_state :: "int \<Rightarrow> ticket option \<Rightarrow> ticket option" where
  "update_ticket_state now None = None"
| "update_ticket_state now (Some ticket) =
     (if t_status ticket = ''Active'' then
        (case fromisoformat (t_expiryTime ticket) of
           Inr expiry \<Rightarrow>
             if now > expiry then Some (ticket\<lparr>t_status := ''Expired''\<rparr>) else Some ticket
         | Inl _ \<Rightarrow> Some ticket)
      else Some ticket)"

text \<open>The loop of \<^verbatim>\<open>save_ticket\<close>: the first ticket with the same identifier is replaced.\<close>

fun replace_ticket :: "ticket \<Rightarrow> ticket list \<Rightarrow> ticket list" where
  "replace_ticket ticket [] = []"
| "replace_ticket ticket (t # tickets) =
     (if t_ticketId t = t_ticketId ticket then ticket # tickets
      else t # replace_ticket ticket tickets)"

definition save_ticket :: "ticket \<Rightarrow> store \<Rightarrow> store" where
  "save_ticket ticket s = s\<lparr>TICKETS_FILE := replace_ticket ticket (TICKETS_FILE s)\<rparr>"

subsection \<open>Payment service\<close>

text \<open>
  \<open>process_payment_outcome\<close> is the body of \<^verbatim>\<open>process_payment\<close> with its local
  variable \<^verbatim>\<open>success\<close> as a parameter; the source assigns \<^verbatim>\<open>success = True\<close> (and
  keeps a random choice in a comment), which is \<open>process_payment\<close>.
\<close>

definition process_payment_outcome ::
  "bool \<Rightarrow> int \<Rightarrow> store \<Rightarrow> int \<Rightarrow> int \<Rightarrow> (bool \<times> payment) \<times> store" where
  "process_payment_outcome success now s booking_id amount =
     (let payments = PAYMENTS_FILE s;
          tickets = TICKETS_FILE s;
          bookings = BOOKINGS_FILE s;
          payment_id = get_next_id payments pay_paymentId;
          payment_time = Iso now;
          payment_status = (if success then ''SUCCESS'' else ''FAILED'');
          payment = \<lparr>pay_paymentId = payment_id, pay_bookingId = booking_id,
                     pay_amount = amount, pay_paymentStatus = payment_status,
                     pay_paymentTime = payment_time\<rparr>;
          s1 = s\<lparr>PAYMENTS_FILE := payments @ [payment]\<rparr>;
          s2 = (case find (\<lambda>b. b_bookingId b = booking_id) bookings of
                  None \<Rightarrow> s1
                | Some booking \<Rightarrow>
                    (let ticket_id = b_ticketId booking in
                     case find (\<lambda>t. t_ticketId t = ticket_id) tickets of
                       None \<Rightarrow> s1
                     | Some ticket \<Rightarrow>
                         save_ticket
                           (if success then ticket\<lparr>t_status := ''Active''\<rparr>
                            else ticket\<lparr>t_status := ''Cancelled''\<rparr>) s1))
      in ((success, payment), s2))"

definition process_payment :: "int \<Rightarrow> store \<Rightarrow> int \<Rightarrow> int \<Rightarrow> (bool \<times> payment) \<times> store" where
  "process_payment now s booking_id amount =
     process_payment_outcome True now s booking_id amount"

subsection \<open>Request handlers\<close>

text \<open>
  \<^verbatim>\<open>seed_platforms()\<close> writes the two default platforms when the platform file is
  empty.
\<close>

definition seed_platforms :: "store \<Rightarrow> store" where
  "seed_platforms s =
     (let platforms = PLATFORMS_FILE s
      in if platforms = []
         then s\<lparr>PLATFORMS_FILE := [\<lparr>p_platformNumber = 1, p_capacity = 200\<rparr>,
                                   \<lparr>p_platformNumber = 2, p_capacity = 150\<rparr>]\<rparr>
         else s)"

text \<open>
  A \<^verbatim>\<open>POST\<close> request to \<^verbatim>\<open>book()\<close>: the platforms are seeded, then comes the
  availability check, and \<^verbatim>\<open>create_booking\<close> only when the check allows it. An
  exception of \<^verbatim>\<open>create_booking\<close> ends the request before a booking or ticket is
  saved. The fare and the booking identifier go to the session, which is not part of
  the store.
\<close>

definition book :: "int \<Rightarrow> int \<Rightarrow> int \<Rightarrow> store \<Rightarrow> int \<Rightarrow> int \<Rightarrow> int \<Rightarrow> store" where
  "book now_booking now_issue now_expiry s user_id platform_number duration =
     (let s = seed_platforms s;
          (available, msg) = check_platform_availability s platform_number
      in if \<not> available then s
         else (case create_booking now_booking now_issue now_expiry s
                      user_id platform_number duration of
                 Inl e \<Rightarrow> s
               | Inr (booking, s') \<Rightarrow> s'))"

text \<open>
  The part of \<^verbatim>\<open>ticket_details(booking_id)\<close> that changes the store: the booking of
  the logged-in user is looked up, its ticket is passed through
  \<^verbatim>\<open>update_ticket_state\<close> and saved.
\<close>

definition ticket_details :: "int \<Rightarrow> store \<Rightarrow> int \<Rightarrow> int \<Rightarrow> store" where
  "ticket_details now s user_id booking_id =
     (let bookings = BOOKINGS_FILE s;
          tickets = TICKETS_FILE s
      in case find (\<lambda>b. b_bookingId b = booking_id) bookings of
           None \<Rightarrow> s
         | Some booking \<Rightarrow>
             if b_userId booking \<noteq> user_id then s
             else (case find (\<lambda>t. t_ticketId t = b_ticketId booking) tickets of
                     None \<Rightarrow> s
                   | Some ticket \<Rightarrow>
                       (case update_ticket_state now (Some ticket) of
                          None \<Rightarrow> s
                        | Some ticket' \<Rightarrow> save_ticket ticket' s)))"

text \<open>
  A caller of the booking engine issues a sequence of requests: a booking that honours
  the availability check, a payment, or a read of a ticket that refreshes its state.
\<close>

datatype request =
  Book int int int int int int
| Pay int int int
| View int int int

fun step :: "store \<Rightarrow> request \<Rightarrow> store" where
  "step s (Book now_booking now_issue now_expiry user_id platform_number duration) =
     book now_booking now_issue now_expiry s user_id platform_number duration"
| "step s (Pay now booking_id amount) = snd (process_payment now s booking_id amount)"
| "step s (View now user_id booking_id) = ticket_details now s user_id booking_id"

fun run :: "store \<Rightarrow> request list \<Rightarrow> store" where
  "run s [] = s"
| "run s (r # rs) = run (step s r) rs"

subsection \<open>Notions of the specification\<close>

text \<open>The current time is strictly greater than a stored expiry time.\<close>

definition expiry_passed :: "int \<Rightarrow> isotime \<Rightarrow> bool" where
  "expiry_passed now v = (case v of Iso expiry \<Rightarrow> now > expiry | NotIso _ \<Rightarrow> False)"

text \<open>The linked ticket of a booking is the ticket that carries the booking's ticketId.\<close>

definition linked_ticket :: "ticket list \<Rightarrow> booking \<Rightarrow> ticket option" where
  "linked_ticket tickets b = find (\<lambda>t. t_ticketId t = b_ticketId b) tickets"

definition linked_active :: "ticket list \<Rightarrow> booking \<Rightarrow> bool" where
  "linked_active tickets b =
     (case linked_ticket tickets b of Some t \<Rightarrow> t_status t = ''Active'' | None \<Rightarrow> False)"


text \<open>The number of tickets in state Active whose platformNumber is the given one.\<close>

definition active_ticket_count :: "store \<Rightarrow> int \<Rightarrow> int" where
  "active_ticket_count s platform_number =
     int (length (filter (\<lambda>t. t_status t = ''Active'' \<and> t_platformNumber t = platform_number)
                    (TICKETS_FILE s)))"

text \<open>A clock reading is a datetime: it lies between \<^verbatim>\<open>datetime.min\<close> and \<^verbatim>\<open>datetime.max\<close>.\<close>

definition is_datetime :: "int \<Rightarrow> bool" where
  "is_datetime d = (0 \<le> d \<and> d \<le> datetime_max)"

subsection \<open>Example stores\<close>

text \<open>
  Midnight of 2024-01-01 as a clock reading, a station with two platforms of capacity 1,
  and the same station holding one booking whose ticket has expired.
\<close>

definition new_year :: int where
  "new_year = 63839664000000000"

definition station :: store where
  "station = \<lparr>PLATFORMS_FILE = [\<lparr>p_platformNumber = 1, p_capacity = 1\<rparr>,
                                 \<lparr>p_platformNumber = 2, p_capacity = 1\<rparr>],
              BOOKINGS_FILE = [], PAYMENTS_FILE = [], TICKETS_FILE = []\<rparr>"

definition expired_ticket :: ticket where
  "expired_ticket = \<lparr>t_ticketId = 1, t_issueTime = Iso new_year,
                     t_expiryTime = Iso (new_year + 3600000000), t_status = ''Expired'',
                     t_platformNumber = 1\<rparr>"

definition first_booking :: booking where
  "first_booking = \<lparr>b_bookingId = 1, b_userId = 7, b_platformNumber = 1,
                    b_bookingTime = Iso new_year, b_selectedDuration = 1, b_ticketId = 1\<rparr>"

definition lapsed_station :: store where
  "lapsed_station = station\<lparr>BOOKINGS_FILE := [first_booking], TICKETS_FILE := [expired_ticket]\<rparr>"

subsection \<open>Stores built by the engine\<close>

text \<open>
  In a store that the engine has filled from empty booking and ticket files, the i-th
  booking and the i-th ticket carry the same ticketId and platformNumber, and the ticket
  identifiers are distinct and positive.
\<close>

definition consistent :: "store \<Rightarrow> bool" where
  "consistent s =
     (map b_ticketId (BOOKINGS_FILE s) = map t_ticketId (TICKETS_FILE s)
      \<and> map b_platformNumber (BOOKINGS_FILE s) = map t_platformNumber (TICKETS_FILE s)
      \<and> distinct (map t_ticketId (TICKETS_FILE s))
      \<and> list_all (\<lambda>k. 0 < k) (map t_ticketId (TICKETS_FILE s)))"

subsection \<open>Example request sequences\<close>

text \<open>
  Two users book platform 1 of the example station one after the other and then both pay;
  and one user books, pays, reads the ticket two hours later and pays once more.
\<close>

definition oversold_trace :: "request list" where
  "oversold_trace =
     [Book new_year new_year new_year 7 1 1,
      Book new_year new_year new_year 8 1 1,
      Pay new_year 1 10,
      Pay new_year 2 10]"

definition reactivation_trace :: "request list" where
  "reactivation_trace =
     [Book new_year new_year new_year 7 1 1,
      Pay new_year 1 10,
      View (new_year + 2 * 3600000000) 7 1,
      Pay (new_year + 2 * 3600000000) 1 10]"

section \<open>Fare calculation\<close>

text \<open>
  C8. \<^verbatim>\<open>calculate_amount\<close> is the product of the fixed rate 10 and the duration, for
  every duration: zero and negative durations are multiplied like any other.
\<close>

theorem calculate_amount_rate: "calculate_amount duration_hours = 10 * duration_hours"
  by (simp add: calculate_amount_def)

section \<open>Ticket lifecycle\<close>

text \<open>
  C6. \<^verbatim>\<open>update_ticket_state\<close> moves a ticket to Expired exactly when its status is
  Active and the current time is strictly greater than its expiry time; a ticket whose
  status is Pending Payment, Cancelled or Expired is returned as it is, whatever the
  time.
\<close>

theorem update_ticket_state_expires:
  "update_ticket_state now (Some ticket) =
     Some (if t_status ticket = ''Active'' \<and> expiry_passed now (t_expiryTime ticket)
           then ticket\<lparr>t_status := ''Expired''\<rparr> else ticket)
   \<and> ((update_ticket_state now (Some ticket) \<noteq> Some ticket) =
        (t_status ticket = ''Active'' \<and> expiry_passed now (t_expiryTime ticket)))
   \<and> update_ticket_state now (Some (ticket\<lparr>t_status := ''Pending Payment''\<rparr>)) =
        Some (ticket\<lparr>t_status := ''Pending Payment''\<rparr>)
   \<and> update_ticket_state now (Some (ticket\<lparr>t_status := ''Cancelled''\<rparr>)) =
        Some (ticket\<lparr>t_status := ''Cancelled''\<rparr>)
   \<and> update_ticket_state now (Some (ticket\<lparr>t_status := ''Expired''\<rparr>)) =
        Some (ticket\<lparr>t_status := ''Expired''\<rparr>)"
proof -
  have eq: "update_ticket_state now (Some ticket) =
     Some (if t_status ticket = ''Active'' \<and> expiry_passed now (t_expiryTime ticket)
           then ticket\<lparr>t_status := ''Expired''\<rparr> else ticket)"
    by (simp add: fromisoformat_def expiry_passed_def split: isotime.splits)
  have moved: "ticket\<lparr>t_status := ''Expired''\<rparr> \<noteq> ticket" if active: "t_status ticket = ''Active''"
  proof
    assume same: "ticket\<lparr>t_status := ''Expired''\<rparr> = ticket"
    have "t_status (ticket\<lparr>t_status := ''Expired''\<rparr>) = ''Expired''" by simp
    with same active show False by simp
  qed
  have iff: "(update_ticket_state now (Some ticket) \<noteq> Some ticket) =
     (t_status ticket = ''Active'' \<and> expiry_passed now (t_expiryTime ticket))"
    using moved by (simp add: fromisoformat_def expiry_passed_def split: isotime.splits)
  show ?thesis using eq iff by simp
qed

text \<open>
  C7. \<^verbatim>\<open>update_ticket_state\<close> is idempotent: at one observation time, a second
  application returns what the first returned.
\<close>

theorem update_ticket_state_idempotent:
  "update_ticket_state now (update_ticket_state now ticket) = update_ticket_state now ticket"
  by (cases ticket) (simp_all add: fromisoformat_def split: isotime.splits)

text \<open>
  C9. For an Active ticket whose expiry time does not parse, the failure of
  \<^verbatim>\<open>fromisoformat\<close> is swallowed: \<^verbatim>\<open>update_ticket_state\<close> returns normally and the
  ticket is unchanged.
\<close>

theorem update_ticket_state_unparseable:
  "fromisoformat (NotIso v) = Inl ValueError
   \<and> update_ticket_state now (Some (ticket\<lparr>t_status := ''Active'', t_expiryTime := NotIso v\<rparr>)) =
       Some (ticket\<lparr>t_status := ''Active'', t_expiryTime := NotIso v\<rparr>)"
  by (simp add: fromisoformat_def)


section \<open>Payment settlement\<close>

lemma find_replace_ticket:
  "find (\<lambda>t. t_ticketId t = k) tickets = Some t \<Longrightarrow> t_ticketId ticket = k \<Longrightarrow>
   find (\<lambda>t. t_ticketId t = k) (replace_ticket ticket tickets) = Some ticket"
  by (induction tickets) (auto split: if_splits)

lemma replace_ticket_others:
  "filter (\<lambda>t. t_ticketId t \<noteq> t_ticketId ticket) (replace_ticket ticket tickets) =
   filter (\<lambda>t. t_ticketId t \<noteq> t_ticketId ticket) tickets"
  by (induction tickets) auto

lemma find_Some_key: "find (\<lambda>t. f t = k) xs = Some x \<Longrightarrow> f x = k"
  by (induction xs) (auto split: if_splits)

text \<open>
  C3. For a booking that is in the booking store, the payment routine appends one
  Payment record with the given amount, whatever the booking's fare, and with status
  SUCCESS or FAILED, and overwrites the status of the booking's linked ticket with Active
  on success and Cancelled on failure, whatever the ticket's status was; tickets with
  another identifier are left as they are, and so is the ticket file when the booking
  has no linked ticket. \<^verbatim>\<open>process_payment\<close> is the routine with
  the outcome fixed to success.
\<close>

theorem process_payment_settles:
  assumes present: "find (\<lambda>b. b_bookingId b = booking_id) (BOOKINGS_FILE s) = Some booking"
  shows "(let status' = (if success then ''Active'' else ''Cancelled'');
              payment = \<lparr>pay_paymentId = get_next_id (PAYMENTS_FILE s) pay_paymentId,
                         pay_bookingId = booking_id, pay_amount = amount,
                         pay_paymentStatus = (if success then ''SUCCESS'' else ''FAILED''),
                         pay_paymentTime = Iso now\<rparr>;
              s' = snd (process_payment_outcome success now s booking_id amount)
          in fst (process_payment_outcome success now s booking_id amount) = (success, payment)
           \<and> PAYMENTS_FILE s' = PAYMENTS_FILE s @ [payment]
           \<and> BOOKINGS_FILE s' = BOOKINGS_FILE s
           \<and> PLATFORMS_FILE s' = PLATFORMS_FILE s
           \<and> (case linked_ticket (TICKETS_FILE s) booking of
                 None \<Rightarrow> TICKETS_FILE s' = TICKETS_FILE s
               | Some ticket \<Rightarrow>
                   TICKETS_FILE s' =
                     replace_ticket (ticket\<lparr>t_status := status'\<rparr>) (TICKETS_FILE s)
                   \<and> linked_ticket (TICKETS_FILE s') booking =
                       Some (ticket\<lparr>t_status := status'\<rparr>)
                   \<and> filter (\<lambda>t. t_ticketId t \<noteq> b_ticketId booking) (TICKETS_FILE s') =
                       filter (\<lambda>t. t_ticketId t \<noteq> b_ticketId booking) (TICKETS_FILE s)))
         \<and> process_payment now s booking_id amount =
             process_payment_outcome True now s booking_id amount"
proof (cases "linked_ticket (TICKETS_FILE s) booking")
  case None
  then have "find (\<lambda>t. t_ticketId t = b_ticketId booking) (TICKETS_FILE s) = None"
    by (simp add: linked_ticket_def)
  with present None show ?thesis
    by (simp add: process_payment_def process_payment_outcome_def Let_def)
next
  case (Some ticket)
  let ?st = "if success then ''Active'' else ''Cancelled''"
  from Some have f: "find (\<lambda>t. t_ticketId t = b_ticketId booking) (TICKETS_FILE s) = Some ticket"
    by (simp add: linked_ticket_def)
  then have k: "t_ticketId ticket = b_ticketId booking"
    by (rule find_Some_key)
  have l: "linked_ticket (replace_ticket (ticket\<lparr>t_status := ?st\<rparr>) (TICKETS_FILE s)) booking =
      Some (ticket\<lparr>t_status := ?st\<rparr>)"
    unfolding linked_ticket_def using f k by (intro find_replace_ticket) simp_all
  have o: "filter (\<lambda>t. t_ticketId t \<noteq> b_ticketId booking)
         (replace_ticket (ticket\<lparr>t_status := ?st\<rparr>) (TICKETS_FILE s)) =
       filter (\<lambda>t. t_ticketId t \<noteq> b_ticketId booking) (TICKETS_FILE s)"
    using replace_ticket_others [of "ticket\<lparr>t_status := ?st\<rparr>" "TICKETS_FILE s"] k by simp
  have t: "TICKETS_FILE (snd (process_payment_outcome success now s booking_id amount)) =
      replace_ticket (ticket\<lparr>t_status := ?st\<rparr>) (TICKETS_FILE s)"
    using present f by (simp add: process_payment_outcome_def save_ticket_def Let_def)
  have rest: "fst (process_payment_outcome success now s booking_id amount) =
        (success, \<lparr>pay_paymentId = get_next_id (PAYMENTS_FILE s) pay_paymentId,
                         pay_bookingId = booking_id, pay_amount = amount,
                         pay_paymentStatus = (if success then ''SUCCESS'' else ''FAILED''),
                         pay_paymentTime = Iso now\<rparr>)"
      "PAYMENTS_FILE (snd (process_payment_outcome success now s booking_id amount)) =
         PAYMENTS_FILE s @ [\<lparr>pay_paymentId = get_next_id (PAYMENTS_FILE s) pay_paymentId,
                         pay_bookingId = booking_id, pay_amount = amount,
                         pay_paymentStatus = (if success then ''SUCCESS'' else ''FAILED''),
                         pay_paymentTime = Iso now\<rparr>]"
      "BOOKINGS_FILE (snd (process_payment_outcome success now s booking_id amount)) =
         BOOKINGS_FILE s"
      "PLATFORMS_FILE (snd (process_payment_outcome success now s booking_id amount)) =
         PLATFORMS_FILE s"
    using present f by (simp_all add: process_payment_outcome_def save_ticket_def Let_def)
  show ?thesis
    unfolding Let_def Some t rest using l o by (simp add: process_payment_def)
qed

theorem process_payment_settles_witness:
  "find (\<lambda>b. b_bookingId b = 1) (BOOKINGS_FILE lapsed_station) = Some first_booking
   \<and> linked_ticket (TICKETS_FILE lapsed_station) first_booking = Some expired_ticket
   \<and> t_status expired_ticket = ''Expired''
   \<and> fst (process_payment new_year lapsed_station 1 10) =
       (True, \<lparr>pay_paymentId = 1, pay_bookingId = 1, pay_amount = 10,
               pay_paymentStatus = ''SUCCESS'', pay_paymentTime = Iso new_year\<rparr>)
   \<and> TICKETS_FILE (snd (process_payment new_year lapsed_station 1 10)) =
       [expired_ticket\<lparr>t_status := ''Active''\<rparr>]"
proof -
  have present: "find (\<lambda>b. b_bookingId b = 1) (BOOKINGS_FILE lapsed_station) = Some first_booking"
    by (simp add: lapsed_station_def station_def first_booking_def)
  have linked: "linked_ticket (TICKETS_FILE lapsed_station) first_booking = Some expired_ticket"
    by (simp add: linked_ticket_def lapsed_station_def station_def first_booking_def
        expired_ticket_def)
  have ids: "t_ticketId expired_ticket = 1" "t_status expired_ticket = ''Expired''"
    by (simp_all add: expired_ticket_def)
  have files: "PAYMENTS_FILE lapsed_station = []" "TICKETS_FILE lapsed_station = [expired_ticket]"
    by (simp_all add: lapsed_station_def station_def)
  show ?thesis
    using present linked
      process_payment_settles [OF present, where success = True and now = new_year and amount = 10]
    by (simp add: Let_def files ids get_next_id_def)
qed

text \<open>
  C10. For a booking identifier that is not in the booking store,
  \<^verbatim>\<open>process_payment\<close> still appends a Payment record with status SUCCESS and returns
  success, and the ticket store is unchanged.
\<close>

theorem process_payment_unknown_booking:
  assumes "booking_id \<notin> b_bookingId ` set (BOOKINGS_FILE s)"
  shows "process_payment now s booking_id amount =
     ((True, \<lparr>pay_paymentId = get_next_id (PAYMENTS_FILE s) pay_paymentId,
              pay_bookingId = booking_id, pay_amount = amount,
              pay_paymentStatus = ''SUCCESS'', pay_paymentTime = Iso now\<rparr>),
      s\<lparr>PAYMENTS_FILE := PAYMENTS_FILE s @
          [\<lparr>pay_paymentId = get_next_id (PAYMENTS_FILE s) pay_paymentId,
            pay_bookingId = booking_id, pay_amount = amount,
            pay_paymentStatus = ''SUCCESS'', pay_paymentTime = Iso now\<rparr>]\<rparr>)
   \<and> TICKETS_FILE (snd (process_payment now s booking_id amount)) = TICKETS_FILE s"
proof -
  from assms have "find (\<lambda>b. b_bookingId b = booking_id) (BOOKINGS_FILE s) = None"
    by (auto simp: find_None_iff)
  then show ?thesis
    by (simp add: process_payment_def process_payment_outcome_def Let_def)
qed

theorem process_payment_unknown_booking_witness:
  "5 \<notin> b_bookingId ` set (BOOKINGS_FILE lapsed_station)
   \<and> fst (fst (process_payment new_year lapsed_station 5 10)) = True
   \<and> pay_paymentStatus (snd (fst (process_payment new_year lapsed_station 5 10))) = ''SUCCESS''
   \<and> length (PAYMENTS_FILE (snd (process_payment new_year lapsed_station 5 10))) = 1
   \<and> TICKETS_FILE (snd (process_payment new_year lapsed_station 5 10)) = [expired_ticket]"
proof -
  have absent: "5 \<notin> b_bookingId ` set (BOOKINGS_FILE lapsed_station)"
    by (simp add: lapsed_station_def station_def first_booking_def)
  show ?thesis
    using absent process_payment_unknown_booking [OF absent, where now = new_year and amount = 10]
    by (simp add: lapsed_station_def station_def)
qed



section \<open>Availability\<close>

lemma count_active_filter:
  "count_active tickets n bookings acc =
     acc + int (length (filter (\<lambda>b. b_ticketId b \<noteq> 0)
                 (filter (\<lambda>b. b_platformNumber b = n \<and> linked_active tickets b) bookings)))"
  by (induction bookings arbitrary: acc)
     (auto simp: linked_active_def linked_ticket_def Let_def split: option.splits)

section \<open>Booking workflow\<close>

lemma get_next_id_greater: "x \<in> set data \<Longrightarrow> key_name x < get_next_id data key_name"
proof -
  assume x: "x \<in> set data"
  then have "key_name x \<le> Max (set (map key_name data))"
    by (intro Max_ge) auto
  with x show ?thesis
    by (auto simp: get_next_id_def)
qed

lemma timedelta_hours_in_range:
  assumes "is_datetime d" and "is_datetime (d + hours * 3600000000)"
  shows "timedelta_hours hours = Inr (hours * 3600000000)"
proof -
  from assms have bounds: "- 87649417 \<le> hours" "hours \<le> 87649417"
    by (simp_all add: is_datetime_def datetime_max_def)
  have "(- 87649417) div 24 \<le> hours div 24"
    using bounds(1) by (intro zdiv_mono1) simp_all
  moreover have "hours div 24 \<le> 87649417 div 24"
    using bounds(2) by (intro zdiv_mono1) simp_all
  ultimately have "- 999999999 \<le> hours div 24 \<and> hours div 24 \<le> 999999999"
    by simp
  then show ?thesis
    by (simp add: timedelta_hours_def)
qed

text \<open>
  C5 (as amended). When the clock reading taken for the expiry and that reading plus the
  duration are datetimes, \<^verbatim>\<open>create_booking\<close> appends one ticket in state Pending
  Payment and one booking that refers to it, each with an identifier greater than every
  identifier in its file, and returns the booking. The issue time is one clock reading
  and the expiry time is a later reading plus the duration; they differ by the duration
  when the two readings are equal. When the sum is not a datetime the call raises
  OverflowError and persists nothing.
\<close>

theorem create_booking_persists:
  "(is_datetime now_expiry \<and> is_datetime (now_expiry + selected_duration * 3600000000) \<longrightarrow>
      (let ticket = \<lparr>t_ticketId = get_next_id (TICKETS_FILE s) t_ticketId,
                      t_issueTime = Iso now_issue,
                      t_expiryTime = Iso (now_expiry + selected_duration * 3600000000),
                      t_status = ''Pending Payment'', t_platformNumber = platform_number\<rparr>;
           booking = \<lparr>b_bookingId = get_next_id (BOOKINGS_FILE s) b_bookingId,
                       b_userId = user_id, b_platformNumber = platform_number,
                       b_bookingTime = Iso now_booking, b_selectedDuration = selected_duration,
                       b_ticketId = t_ticketId ticket\<rparr>
       in create_booking now_booking now_issue now_expiry s
            user_id platform_number selected_duration =
            Inr (booking, s\<lparr>TICKETS_FILE := TICKETS_FILE s @ [ticket],
                            BOOKINGS_FILE := BOOKINGS_FILE s @ [booking]\<rparr>)
          \<and> (\<forall>t \<in> set (TICKETS_FILE s). t_ticketId t < t_ticketId ticket)
          \<and> (\<forall>b \<in> set (BOOKINGS_FILE s). b_bookingId b < b_bookingId booking)
          \<and> (now_expiry = now_issue \<longrightarrow>
               t_expiryTime ticket = Iso (now_issue + selected_duration * 3600000000))))
   \<and> (\<not> is_datetime (now_expiry + selected_duration * 3600000000) \<longrightarrow>
        create_booking now_booking now_issue now_expiry s
          user_id platform_number selected_duration = Inl OverflowError)"
proof (intro conjI impI)
  assume ok: "is_datetime now_expiry \<and> is_datetime (now_expiry + selected_duration * 3600000000)"
  then have td: "timedelta_hours selected_duration = Inr (selected_duration * 3600000000)"
    using timedelta_hours_in_range [of now_expiry selected_duration] by simp
  from ok have add: "datetime_add now_expiry (selected_duration * 3600000000) =
      Inr (now_expiry + selected_duration * 3600000000)"
    by (simp add: datetime_add_def is_datetime_def)
  show "let ticket = \<lparr>t_ticketId = get_next_id (TICKETS_FILE s) t_ticketId,
                      t_issueTime = Iso now_issue,
                      t_expiryTime = Iso (now_expiry + selected_duration * 3600000000),
                      t_status = ''Pending Payment'', t_platformNumber = platform_number\<rparr>;
           booking = \<lparr>b_bookingId = get_next_id (BOOKINGS_FILE s) b_bookingId,
                       b_userId = user_id, b_platformNumber = platform_number,
                       b_bookingTime = Iso now_booking, b_selectedDuration = selected_duration,
                       b_ticketId = t_ticketId ticket\<rparr>
       in create_booking now_booking now_issue now_expiry s
            user_id platform_number selected_duration =
            Inr (booking, s\<lparr>TICKETS_FILE := TICKETS_FILE s @ [ticket],
                            BOOKINGS_FILE := BOOKINGS_FILE s @ [booking]\<rparr>)
          \<and> (\<forall>t \<in> set (TICKETS_FILE s). t_ticketId t < t_ticketId ticket)
          \<and> (\<forall>b \<in> set (BOOKINGS_FILE s). b_bookingId b < b_bookingId booking)
          \<and> (now_expiry = now_issue \<longrightarrow>
               t_expiryTime ticket = Iso (now_issue + selected_duration * 3600000000))"
    by (simp add: create_booking_def td add Let_def get_next_id_greater)
next
  assume bad: "\<not> is_datetime (now_expiry + selected_duration * 3600000000)"
  show "create_booking now_booking now_issue now_expiry s
          user_id platform_number selected_duration = Inl OverflowError"
  proof (cases "timedelta_hours selected_duration")
    case (Inl e)
    then have "e = OverflowError"
      by (simp add: timedelta_hours_def split: if_splits)
    with Inl show ?thesis
      by (simp add: create_booking_def)
  next
    case (Inr delta)
    then have "delta = selected_duration * 3600000000"
      by (simp add: timedelta_hours_def split: if_splits)
    with bad have "datetime_add now_expiry delta = Inl OverflowError"
      by (auto simp: datetime_add_def is_datetime_def)
    with Inr show ?thesis
      by (simp add: create_booking_def)
  qed
qed

theorem create_booking_persists_witness:
  "is_datetime new_year \<and> is_datetime (new_year + 2 * 3600000000)
   \<and> create_booking new_year new_year new_year lapsed_station 7 1 2 =
       Inr (\<lparr>b_bookingId = 2, b_userId = 7, b_platformNumber = 1,
              b_bookingTime = Iso new_year, b_selectedDuration = 2, b_ticketId = 2\<rparr>,
            lapsed_station
              \<lparr>TICKETS_FILE := [expired_ticket,
                  \<lparr>t_ticketId = 2, t_issueTime = Iso new_year,
                    t_expiryTime = Iso (new_year + 2 * 3600000000),
                    t_status = ''Pending Payment'', t_platformNumber = 1\<rparr>],
               BOOKINGS_FILE := [first_booking,
                  \<lparr>b_bookingId = 2, b_userId = 7, b_platformNumber = 1,
                    b_bookingTime = Iso new_year, b_selectedDuration = 2, b_ticketId = 2\<rparr>]\<rparr>)
   \<and> \<not> is_datetime (new_year + 100000000 * 3600000000)
   \<and> create_booking new_year new_year new_year lapsed_station 7 1 100000000 = Inl OverflowError"
proof -
  have ok: "is_datetime new_year \<and> is_datetime (new_year + 2 * 3600000000)"
    by (simp add: is_datetime_def new_year_def datetime_max_def)
  have bad: "\<not> is_datetime (new_year + 100000000 * 3600000000)"
    by (simp add: is_datetime_def new_year_def datetime_max_def)
  have files: "TICKETS_FILE lapsed_station = [expired_ticket]"
      "BOOKINGS_FILE lapsed_station = [first_booking]"
    by (simp_all add: lapsed_station_def station_def)
  have ids: "t_ticketId expired_ticket = 1" "b_bookingId first_booking = 1"
    by (simp_all add: expired_ticket_def first_booking_def)
  show ?thesis
    using ok bad
      create_booking_persists [where now_expiry = new_year and selected_duration = 2
        and s = lapsed_station and now_issue = new_year and now_booking = new_year
        and user_id = 7 and platform_number = 1]
      create_booking_persists [where now_expiry = new_year and selected_duration = 100000000
        and s = lapsed_station and now_issue = new_year and now_booking = new_year
        and user_id = 7 and platform_number = 1]
    by (simp add: Let_def files ids get_next_id_def)
qed

text \<open>
  C5, counterexample. The claim as stated fails when the clock advances between the two
  readings (here by one microsecond), and for a duration of 100000000 hours.
\<close>

theorem create_booking_counterexample:
  "create_booking new_year new_year (new_year + 1) station 7 1 2 =
     Inr (\<lparr>b_bookingId = 1, b_userId = 7, b_platformNumber = 1,
            b_bookingTime = Iso new_year, b_selectedDuration = 2, b_ticketId = 1\<rparr>,
          station
            \<lparr>TICKETS_FILE := [\<lparr>t_ticketId = 1, t_issueTime = Iso new_year,
                                t_expiryTime = Iso (new_year + 1 + 2 * 3600000000),
                                t_status = ''Pending Payment'', t_platformNumber = 1\<rparr>],
             BOOKINGS_FILE := [\<lparr>b_bookingId = 1, b_userId = 7, b_platformNumber = 1,
                                 b_bookingTime = Iso new_year, b_selectedDuration = 2,
                                 b_ticketId = 1\<rparr>]\<rparr>)
   \<and> Iso (new_year + 1 + 2 * 3600000000) \<noteq> Iso (new_year + 2 * 3600000000)
   \<and> create_booking new_year new_year new_year station 7 1 100000000 = Inl OverflowError"
  by (simp add: create_booking_def station_def new_year_def timedelta_hours_def
      datetime_add_def datetime_max_def get_next_id_def Let_def)



section \<open>Sequences of requests\<close>

subsection \<open>The stores the engine builds are consistent\<close>

lemma get_next_id_positive:
  assumes "list_all (\<lambda>k. 0 < k) (map key_name data)"
  shows "0 < get_next_id data key_name"
proof (cases data)
  case Nil
  then show ?thesis by (simp add: get_next_id_def)
next
  case (Cons x xs)
  with assms have "0 < key_name x" by simp
  moreover have "key_name x < get_next_id data key_name"
    using Cons by (intro get_next_id_greater) simp
  ultimately show ?thesis by simp
qed

lemma get_next_id_fresh: "get_next_id data key_name \<notin> set (map key_name data)"
  using get_next_id_greater [of _ data key_name] by fastforce

lemma replace_ticket_ids:
  "map t_ticketId (replace_ticket ticket tickets) = map t_ticketId tickets"
  by (induction tickets) auto

lemma replace_ticket_platforms:
  "find (\<lambda>t. t_ticketId t = t_ticketId ticket) tickets = Some old \<Longrightarrow>
   t_platformNumber ticket = t_platformNumber old \<Longrightarrow>
   map t_platformNumber (replace_ticket ticket tickets) = map t_platformNumber tickets"
  by (induction tickets) (auto split: if_splits)

lemma consistent_save_ticket:
  assumes "consistent s"
    and "find (\<lambda>t. t_ticketId t = k) (TICKETS_FILE s) = Some old"
    and "t_ticketId ticket = t_ticketId old"
    and "t_platformNumber ticket = t_platformNumber old"
  shows "consistent (save_ticket ticket s)"
proof -
  from assms(2) have "t_ticketId old = k" by (rule find_Some_key)
  with assms(2,3) have "find (\<lambda>t. t_ticketId t = t_ticketId ticket) (TICKETS_FILE s) = Some old"
    by simp
  then have "map t_platformNumber (replace_ticket ticket (TICKETS_FILE s)) =
      map t_platformNumber (TICKETS_FILE s)"
    using assms(4) by (rule replace_ticket_platforms)
  with assms(1) show ?thesis
    by (simp add: consistent_def save_ticket_def replace_ticket_ids)
qed

lemma consistent_payments:
  "consistent (s\<lparr>PAYMENTS_FILE := payments\<rparr>) = consistent s"
  by (simp add: consistent_def)

lemma save_ticket_payments:
  "save_ticket ticket (s\<lparr>PAYMENTS_FILE := payments\<rparr>) = (save_ticket ticket s)\<lparr>PAYMENTS_FILE := payments\<rparr>"
  by (simp add: save_ticket_def)

lemma consistent_process_payment:
  assumes "consistent s"
  shows "consistent (snd (process_payment_outcome success now s booking_id amount))"
proof (cases "find (\<lambda>b. b_bookingId b = booking_id) (BOOKINGS_FILE s)")
  case None
  with assms show ?thesis
    by (simp add: process_payment_outcome_def Let_def consistent_payments)
next
  case (Some booking)
  show ?thesis
  proof (cases "find (\<lambda>t. t_ticketId t = b_ticketId booking) (TICKETS_FILE s)")
    case None
    with Some assms show ?thesis
      by (simp add: process_payment_outcome_def Let_def consistent_payments)
  next
    case found: (Some ticket)
    have "consistent (save_ticket (ticket\<lparr>t_status := st\<rparr>) s)" for st
      using assms found by (rule consistent_save_ticket) simp_all
    with Some found show ?thesis
      by (simp add: process_payment_outcome_def Let_def save_ticket_payments consistent_payments)
  qed
qed

lemma consistent_ticket_details:
  assumes "consistent s"
  shows "consistent (ticket_details now s user_id booking_id)"
proof (cases "find (\<lambda>b. b_bookingId b = booking_id) (BOOKINGS_FILE s)")
  case None
  with assms show ?thesis
    by (simp add: ticket_details_def Let_def)
next
  case (Some booking)
  show ?thesis
  proof (cases "find (\<lambda>t. t_ticketId t = b_ticketId booking) (TICKETS_FILE s)")
    case None
    with Some assms show ?thesis
      by (simp add: ticket_details_def Let_def)
  next
    case found: (Some ticket)
    have a: "consistent (save_ticket (ticket\<lparr>t_status := st\<rparr>) s)" for st
      using assms found by (rule consistent_save_ticket) simp_all
    have b: "consistent (save_ticket ticket s)"
      using assms found by (rule consistent_save_ticket) simp_all
    from Some found assms a b show ?thesis
      by (simp add: ticket_details_def Let_def split: sum.splits)
  qed
qed

lemma consistent_create_booking:
  assumes "consistent s"
    and "create_booking now_booking now_issue now_expiry s user_id platform_number duration =
           Inr (booking, s')"
  shows "consistent s'"
proof -
  let ?k = "get_next_id (TICKETS_FILE s) t_ticketId"
  from assms(1) have pos: "0 < ?k"
    by (intro get_next_id_positive) (simp add: consistent_def)
  have fresh: "?k \<notin> set (map t_ticketId (TICKETS_FILE s))"
    by (rule get_next_id_fresh)
  from assms(2) have
    "map t_ticketId (TICKETS_FILE s') = map t_ticketId (TICKETS_FILE s) @ [?k]"
    "map t_platformNumber (TICKETS_FILE s') =
       map t_platformNumber (TICKETS_FILE s) @ [platform_number]"
    "map b_ticketId (BOOKINGS_FILE s') = map b_ticketId (BOOKINGS_FILE s) @ [?k]"
    "map b_platformNumber (BOOKINGS_FILE s') =
       map b_platformNumber (BOOKINGS_FILE s) @ [platform_number]"
    by (auto simp: create_booking_def Let_def split: sum.splits)
  with assms(1) pos fresh show ?thesis
    by (simp add: consistent_def)
qed

lemma consistent_seed_platforms: "consistent (seed_platforms s) = consistent s"
  by (simp add: consistent_def seed_platforms_def Let_def)

lemma consistent_book:
  assumes "consistent s"
  shows "consistent (book now_booking now_issue now_expiry s user_id platform_number duration)"
proof -
  from assms have seeded: "consistent (seed_platforms s)"
    by (simp add: consistent_seed_platforms)
  then show ?thesis
    by (auto simp: book_def Let_def split: prod.splits sum.splits
        dest: consistent_create_booking)
qed

lemma consistent_step: "consistent s \<Longrightarrow> consistent (step s r)"
  by (cases r) (simp_all add: consistent_book consistent_ticket_details
      consistent_process_payment process_payment_def)

lemma consistent_run: "consistent s \<Longrightarrow> consistent (run s rs)"
  by (induction rs arbitrary: s) (simp_all add: consistent_step)

lemma consistent_empty: "BOOKINGS_FILE s = [] \<Longrightarrow> TICKETS_FILE s = [] \<Longrightarrow> consistent s"
  by (simp add: consistent_def)


lemma length_filter_zip:
  "length xs = length ys \<Longrightarrow> (\<forall>(x, y) \<in> set (zip xs ys). P x = Q y) \<Longrightarrow>
   length (filter P xs) = length (filter Q ys)"
  by (induction xs ys rule: list_induct2) auto

lemma map_eq_zip:
  "map f xs = map g ys \<Longrightarrow> (x, y) \<in> set (zip xs ys) \<Longrightarrow> f x = g y"
  by (induction xs arbitrary: ys) auto

lemma find_distinct_key:
  "distinct (map f xs) \<Longrightarrow> x \<in> set xs \<Longrightarrow> find (\<lambda>y. f y = f x) xs = Some x"
  by (induction xs) (auto simp: image_iff)

lemma consistent_count_active:
  assumes "consistent s"
  shows "count_active (TICKETS_FILE s) n (BOOKINGS_FILE s) 0 = active_ticket_count s n"
proof -
  let ?P = "\<lambda>b. b_ticketId b \<noteq> 0 \<and> b_platformNumber b = n \<and> linked_active (TICKETS_FILE s) b"
  let ?Q = "\<lambda>t. t_status t = ''Active'' \<and> t_platformNumber t = n"
  from assms have len: "length (BOOKINGS_FILE s) = length (TICKETS_FILE s)"
    unfolding consistent_def by (metis length_map)
  have same: "?P b = ?Q t" if bt: "(b, t) \<in> set (zip (BOOKINGS_FILE s) (TICKETS_FILE s))" for b t
  proof -
    from assms bt have k: "b_ticketId b = t_ticketId t"
      unfolding consistent_def by (blast intro: map_eq_zip)
    from assms bt have p: "b_platformNumber b = t_platformNumber t"
      unfolding consistent_def by (blast intro: map_eq_zip)
    from bt have t: "t \<in> set (TICKETS_FILE s)"
      by (rule set_zip_rightD)
    with assms have "0 < t_ticketId t"
      by (auto simp: consistent_def list_all_iff)
    moreover from assms t have "find (\<lambda>y. t_ticketId y = t_ticketId t) (TICKETS_FILE s) = Some t"
      unfolding consistent_def by (blast intro: find_distinct_key)
    ultimately show ?thesis
      using k p by (auto simp: linked_active_def linked_ticket_def)
  qed
  have "length (filter ?P (BOOKINGS_FILE s)) = length (filter ?Q (TICKETS_FILE s))"
    using len same by (intro length_filter_zip) auto
  then show ?thesis
    by (simp add: count_active_filter active_ticket_count_def conj_commute)
qed

lemma create_booking_tickets_active:
  "create_booking now_booking now_issue now_expiry s user_id platform_number duration =
     Inr (booking, s') \<Longrightarrow>
   active_ticket_count s' n = active_ticket_count s n \<and> PLATFORMS_FILE s' = PLATFORMS_FILE s"
  by (auto simp: create_booking_def Let_def active_ticket_count_def split: sum.splits)

text \<open>
  What the availability check does guarantee: right after a booking that it admitted, the
  platform that was booked has fewer Active tickets than its capacity.
\<close>

lemma create_booking_below_capacity:
  assumes start: "BOOKINGS_FILE s0 = []" "TICKETS_FILE s0 = []"
    and allowed: "fst (check_platform_availability (run s0 rs) platform_number)"
    and commit: "create_booking now_booking now_issue now_expiry (run s0 rs)
                   user_id platform_number duration = Inr (booking, s')"
    and platform: "find (\<lambda>p. p_platformNumber p = platform_number) (PLATFORMS_FILE s') = Some P"
  shows "active_ticket_count s' platform_number < p_capacity P"
proof -
  from start have inv: "consistent (run s0 rs)"
    by (intro consistent_run consistent_empty)
  from commit have same: "active_ticket_count s' platform_number =
      active_ticket_count (run s0 rs) platform_number"
    "PLATFORMS_FILE s' = PLATFORMS_FILE (run s0 rs)"
    by (simp_all add: create_booking_tickets_active)
  from allowed platform same(2)
  have "count_active (TICKETS_FILE (run s0 rs)) platform_number (BOOKINGS_FILE (run s0 rs)) 0
          < p_capacity P"
    by (simp add: check_platform_availability_def Let_def split: if_splits)
  with inv same(1) show ?thesis
    by (simp add: consistent_count_active)
qed

subsection \<open>The availability check on the stores the engine builds\<close>

lemmas eval_defs = station_def new_year_def book_def seed_platforms_def
  check_platform_availability_def
  create_booking_def timedelta_hours_def datetime_add_def datetime_max_def get_next_id_def
  process_payment_def process_payment_outcome_def save_ticket_def ticket_details_def
  fromisoformat_def Let_def active_ticket_count_def




subsection \<open>Runs of the example sequences\<close>

text \<open>
  C1. Claimed: in every state that callers reach who honour the availability check before
  each booking, no platform has more Active tickets than its capacity right after a
  booking commits. The claim fails on the code. The availability check counts Active tickets only, so
  it admits a second booking of platform 1 (capacity 1) while the first is still Pending
  Payment; both are then paid and both tickets are Active. Every booking below was
  admitted by the check, and right after the booking of platform 2 commits, platform 1
  holds two Active tickets against a capacity of one.
\<close>

theorem capacity_oversold:
  "fst (check_platform_availability station 1)
   \<and> fst (check_platform_availability (run station (take 1 oversold_trace)) 1)
   \<and> length (TICKETS_FILE (run station (take 2 oversold_trace))) = 2
   \<and> fst (check_platform_availability (run station oversold_trace) 2)
   \<and> length (TICKETS_FILE (run station
        (oversold_trace @ [Book new_year new_year new_year 9 2 1]))) = 3
   \<and> active_ticket_count (run station
        (oversold_trace @ [Book new_year new_year new_year 9 2 1])) 1 = 2
   \<and> find (\<lambda>p. p_platformNumber p = 1) (PLATFORMS_FILE (run station
        (oversold_trace @ [Book new_year new_year new_year 9 2 1]))) =
       Some \<lparr>p_platformNumber = 1, p_capacity = 1\<rparr>"
  by (simp add: oversold_trace_def eval_defs)

text \<open>
  C2. Claimed: a ticket's status changes only from Pending Payment to Active or
  Cancelled and from Active to Expired, and no sequence of operations moves an Expired or
  Cancelled ticket back. The claim fails on the code. \<^verbatim>\<open>process_payment\<close> sets the status to Active
  without reading the old one: a ticket that was paid, and that a later read has moved to
  Expired, is moved back to Active by a second payment of the same booking.
\<close>

theorem expired_ticket_reactivated:
  "map t_status (TICKETS_FILE (run station (take 1 reactivation_trace))) = [''Pending Payment'']
   \<and> map t_status (TICKETS_FILE (run station (take 2 reactivation_trace))) = [''Active'']
   \<and> map t_status (TICKETS_FILE (run station (take 3 reactivation_trace))) = [''Expired'']
   \<and> map t_status (TICKETS_FILE (run station reactivation_trace)) = [''Active'']"
  by (simp add: reactivation_trace_def eval_defs)


end
